theory Spec2Isabelle
  imports Complex_Main
begin

section \<open>The 3D anatomy browser: data\<close>

text \<open>
  The viewer scripts are JavaScript on top of three.js. JavaScript numbers are modelled as
  reals: a pose copy is verbatim, and the arithmetic of the loader (one division, a few
  products and sums) is read over the reals, so a quotient is meaningful only for a
  non-zero divisor (JavaScript would give Infinity or NaN there). What three.js computes
  (bounding box, bounding sphere, ray intersections, the pose an orbit interaction
  produces) enters the model as data.
\<close>

record vec3 =
  vec_x :: real
  vec_y :: real
  vec_z :: real

record quat =
  quat_x :: real
  quat_y :: real
  quat_z :: real
  quat_w :: real

definition Vector3 :: "real \<Rightarrow> real \<Rightarrow> real \<Rightarrow> vec3" where
  "Vector3 a b c = \<lparr>vec_x = a, vec_y = b, vec_z = c\<rparr>"

definition vec_add :: "vec3 \<Rightarrow> vec3 \<Rightarrow> vec3" where
  "vec_add a b = Vector3 (vec_x a + vec_x b) (vec_y a + vec_y b) (vec_z a + vec_z b)"


definition quat_identity :: quat where
  "quat_identity = \<lparr>quat_x = 0, quat_y = 0, quat_z = 0, quat_w = 1\<rparr>"

text \<open>
  A loaded glTF scene, with what \<^verbatim>\<open>new THREE.Box3().setFromObject(object)\<close> reports about
  it: \<^verbatim>\<open>bbox.getSize\<close>, \<^verbatim>\<open>bbox.getCenter\<close> and the radius of \<^verbatim>\<open>bbox.getBoundingSphere\<close>;
  and the object's own \<^verbatim>\<open>scale\<close>, which the loader sets.
\<close>

record gltf_scene =
  bbox_size :: vec3
  bbox_center :: vec3
  bbox_sphere_radius :: real
  scale :: vec3

datatype scene_node =
    AmbientLight real
  | DirectionalLight real vec3
  | Model gltf_scene

text \<open>
  What \<^verbatim>\<open>loadModel\<close> of the two-panel script returns for one canvas: scene, camera and orbit
  controls (the renderer holds no state that is modelled).
\<close>

record viewport =
  camera_position :: vec3
  camera_quaternion :: quat
  controls_enabled :: bool
  controls_target :: vec3
  scene_children :: "scene_node list"

text \<open>The DOM element \<^verbatim>\<open>loading-spinner\<close>, which both scripts drive.\<close>

record page =
  loading_spinner_display :: string

definition showSpinner :: "'a page_scheme \<Rightarrow> 'a page_scheme" where
  "showSpinner s = s\<lparr>loading_spinner_display := ''block''\<rparr>"

definition hideSpinner :: "'a page_scheme \<Rightarrow> 'a page_scheme" where
  "hideSpinner s = s\<lparr>loading_spinner_display := ''none''\<rparr>"

section \<open>The two-panel synchronised view\<close>

record dual_view = page +
  view1 :: viewport
  view2 :: viewport
  syncEnabled :: bool
  modelsLoaded :: nat
  objects :: "gltf_scene list"
  sync_button_backgroundColor :: string

datatype view_id = V1 | V2

fun get_view :: "view_id \<Rightarrow> dual_view \<Rightarrow> viewport" where
  "get_view V1 s = view1 s"
| "get_view V2 s = view2 s"

fun map_view :: "view_id \<Rightarrow> (viewport \<Rightarrow> viewport) \<Rightarrow> dual_view \<Rightarrow> dual_view" where
  "map_view V1 f s = s\<lparr>view1 := f (view1 s)\<rparr>"
| "map_view V2 f s = s\<lparr>view2 := f (view2 s)\<rparr>"

subsection \<open>loadModel\<close>

text \<open>
  The synchronous part of \<^verbatim>\<open>loadModel(modelPath, canvas, zoomFactor, ambientLightIntensity)\<close>:
  the spinner is shown and a viewport is built. A new camera has the identity quaternion,
  new orbit controls are enabled and target the origin.
\<close>

definition new_viewport :: "real \<Rightarrow> real \<Rightarrow> viewport" where
  "new_viewport zoomFactor ambientLightIntensity =
     \<lparr>camera_position = Vector3 0 0 (5 * zoomFactor),
      camera_quaternion = quat_identity,
      controls_enabled = True,
      controls_target = Vector3 0 0 0,
      scene_children =
        [AmbientLight ambientLightIntensity,
         DirectionalLight 0.5 (Vector3 0 1 1),
         DirectionalLight 0.5 (Vector3 0 1 (-1))]\<rparr>"

definition loadModel :: "view_id \<Rightarrow> real \<Rightarrow> real \<Rightarrow> dual_view \<Rightarrow> dual_view" where
  "loadModel v zoomFactor ambientLightIntensity s =
     map_view v (\<lambda>_. new_viewport zoomFactor ambientLightIntensity) (showSpinner s)"

text \<open>
  The success callback handed to \<^verbatim>\<open>loader.load\<close>. The two-panel script registers neither a
  progress nor an error callback.
\<close>

definition loadModel_onLoad :: "view_id \<Rightarrow> real \<Rightarrow> gltf_scene \<Rightarrow> dual_view \<Rightarrow> dual_view" where
  "loadModel_onLoad v zoomFactor gltf s =
     (let objectSize = bbox_size gltf;
          scaleFactor = 1;
          desiredSize = 2;
          maxDimension = max (vec_x objectSize) (max (vec_y objectSize) (vec_z objectSize));
          scaleToFit = desiredSize / maxDimension;
          scaleFactor = scaleFactor * scaleToFit;
          object = gltf\<lparr>scale := Vector3 scaleFactor scaleFactor scaleFactor\<rparr>;
          objectPosition = bbox_center gltf;
          objectRadius = bbox_sphere_radius gltf;
          cameraDistance = objectRadius * 2 * zoomFactor;
          s1 = map_view v (\<lambda>w. w\<lparr>scene_children := scene_children w @ [Model object],
                 camera_position := vec_add objectPosition (Vector3 0 0 cameraDistance),
                 controls_target := objectPosition\<rparr>) s;
          s2 = s1\<lparr>objects := objects s1 @ [object], modelsLoaded := modelsLoaded s1 + 1\<rparr>
      in if modelsLoaded s2 = 2 then hideSpinner s2 else s2)"

text \<open>The zoom factors of the two top-level \<^verbatim>\<open>loadModel\<close> calls.\<close>

fun zoomFactor_of :: "view_id \<Rightarrow> real" where
  "zoomFactor_of V1 = 0.8"
| "zoomFactor_of V2 = 0.9"

subsection \<open>The synchroniser\<close>

text \<open>
  The statements of the synchroniser, one constructor per kind of source line, so that the
  state between two lines of a handler can be spoken about:
  \<^verbatim>\<open>controlsN.enabled = b\<close>, \<^verbatim>\<open>cameraD.position.copy(cameraS.position)\<close> and
  \<^verbatim>\<open>cameraD.quaternion.copy(cameraS.quaternion)\<close>. None of them dispatches an event.
\<close>

datatype sync_stmt =
    SetControlsEnabled view_id bool
  | CopyPosition view_id view_id
  | CopyQuaternion view_id view_id

fun exec_stmt :: "sync_stmt \<Rightarrow> dual_view \<Rightarrow> dual_view" where
  "exec_stmt (SetControlsEnabled v b) s = map_view v (\<lambda>w. w\<lparr>controls_enabled := b\<rparr>) s"
| "exec_stmt (CopyPosition dst src) s =
     map_view dst (\<lambda>w. w\<lparr>camera_position := camera_position (get_view src s)\<rparr>) s"
| "exec_stmt (CopyQuaternion dst src) s =
     map_view dst (\<lambda>w. w\<lparr>camera_quaternion := camera_quaternion (get_view src s)\<rparr>) s"

fun exec_stmts :: "sync_stmt list \<Rightarrow> dual_view \<Rightarrow> dual_view" where
  "exec_stmts [] s = s"
| "exec_stmts (c # cs) s = exec_stmts cs (exec_stmt c s)"

text \<open>The body of \<^verbatim>\<open>if (syncEnabled) { ... }\<close> in \<^verbatim>\<open>animate\<close>.\<close>

definition animate_sync :: "sync_stmt list" where
  "animate_sync =
     [SetControlsEnabled V1 False, SetControlsEnabled V2 False,
      CopyPosition V2 V1, CopyQuaternion V2 V1,
      SetControlsEnabled V1 True, SetControlsEnabled V2 True]"

text \<open>
  One animation frame. Rendering changes nothing that is modelled, and
  \<^verbatim>\<open>requestAnimationFrame\<close> is the next \<open>Tick\<close> of a run.
\<close>

definition animate :: "dual_view \<Rightarrow> dual_view" where
  "animate s = (if syncEnabled s then exec_stmts animate_sync s else s)"

text \<open>The bodies of the two \<^verbatim>\<open>change\<close> listeners.\<close>

fun change_sync :: "view_id \<Rightarrow> sync_stmt list" where
  "change_sync V1 = [CopyPosition V2 V1, CopyQuaternion V2 V1]"
| "change_sync V2 = [CopyPosition V1 V2, CopyQuaternion V1 V2]"

definition controls_change :: "view_id \<Rightarrow> dual_view \<Rightarrow> dual_view" where
  "controls_change v s = (if syncEnabled s then exec_stmts (change_sync v) s else s)"

text \<open>
  An interaction on one canvas: the orbit controls of that canvas, when enabled, write a
  new pose (and, when panning, a new target) into their own camera and dispatch
  \<^verbatim>\<open>change\<close>. The pose is whatever three.js computes and is a parameter here.
\<close>

definition orbit_interaction :: "view_id \<Rightarrow> vec3 \<Rightarrow> quat \<Rightarrow> vec3 \<Rightarrow> dual_view \<Rightarrow> dual_view" where
  "orbit_interaction v p q t s =
     (if controls_enabled (get_view v s)
      then controls_change v
             (map_view v (\<lambda>w. w\<lparr>camera_position := p, camera_quaternion := q,
                                 controls_target := t\<rparr>) s)
      else s)"

definition toggleSync :: "dual_view \<Rightarrow> dual_view" where
  "toggleSync s =
     (let s1 = s\<lparr>syncEnabled := \<not> syncEnabled s\<rparr>
      in if syncEnabled s1
         then s1\<lparr>sync_button_backgroundColor := ''#00FF00''\<rparr>
         else s1\<lparr>sync_button_backgroundColor := ''#FF0000''\<rparr>)"

definition initSyncButton :: "dual_view \<Rightarrow> dual_view" where
  "initSyncButton s =
     (if syncEnabled s
      then s\<lparr>sync_button_backgroundColor := ''#00FF00''\<rparr>
      else s\<lparr>sync_button_backgroundColor := ''#FF0000''\<rparr>)"

text \<open>
  The page once the top level of the script has run: both \<^verbatim>\<open>loadModel\<close> calls are made,
  \<^verbatim>\<open>animate()\<close> has run its first frame and the button is initialised; no callback has run
  yet. (\<^verbatim>\<open>onWindowResize\<close> sizes canvases, renderers and camera aspect, none of which is
  modelled.)
\<close>

definition dual_blank :: dual_view where
  "dual_blank =
     \<lparr>loading_spinner_display = [],
      view1 = new_viewport 1 1, view2 = new_viewport 1 1,
      syncEnabled = True, modelsLoaded = 0, objects = [],
      sync_button_backgroundColor = []\<rparr>"

definition dual_init :: dual_view where
  "dual_init =
     initSyncButton (animate (loadModel V2 0.9 1.6 (loadModel V1 0.8 1.0 dual_blank)))"

text \<open>What can happen to the page afterwards.\<close>

datatype dual_event =
    Tick
  | Click_sync_button
  | Interaction view_id vec3 quat vec3
  | Loaded view_id gltf_scene

fun dual_step :: "dual_view \<Rightarrow> dual_event \<Rightarrow> dual_view" where
  "dual_step s Tick = animate s"
| "dual_step s Click_sync_button = toggleSync s"
| "dual_step s (Interaction v p q t) = orbit_interaction v p q t s"
| "dual_step s (Loaded v gltf) = loadModel_onLoad v (zoomFactor_of v) gltf s"

definition dual_run :: "dual_view \<Rightarrow> dual_event list \<Rightarrow> dual_view" where
  "dual_run s es = foldl dual_step s es"

text \<open>
  Properties of a handler body, read statement by statement: \<open>copies_guarded cs s\<close> holds
  when every copy statement of \<open>cs\<close>, run from \<open>s\<close>, starts in a state where both
  controls are disabled.
\<close>

fun is_copy :: "sync_stmt \<Rightarrow> bool" where
  "is_copy (SetControlsEnabled _ _) = False"
| "is_copy (CopyPosition _ _) = True"
| "is_copy (CopyQuaternion _ _) = True"

fun copies_guarded :: "sync_stmt list \<Rightarrow> dual_view \<Rightarrow> bool" where
  "copies_guarded [] s = True"
| "copies_guarded (c # cs) s =
     ((if is_copy c then \<not> controls_enabled (view1 s) \<and> \<not> controls_enabled (view2 s) else True)
      \<and> copies_guarded cs (exec_stmt c s))"

fun other_view :: "view_id \<Rightarrow> view_id" where
  "other_view V1 = V2"
| "other_view V2 = V1"

text \<open>The events of a user who works on canvas \<open>v\<close> only, between animation frames.\<close>

fun touches_only :: "view_id \<Rightarrow> dual_event \<Rightarrow> bool" where
  "touches_only v Tick = True"
| "touches_only v (Interaction v' _ _ _) = (v' = v)"
| "touches_only v Click_sync_button = False"
| "touches_only v (Loaded _ _) = False"

section \<open>The single-panel viewer (main.js)\<close>

text \<open>
  The globals of main.js (\<^verbatim>\<open>scene\<close>, \<^verbatim>\<open>camera\<close> and \<^verbatim>\<open>controls\<close> as one viewport, \<^verbatim>\<open>object\<close>,
  \<^verbatim>\<open>objToRender\<close>, \<^verbatim>\<open>ambientintensity\<close>) and the DOM elements it writes: the \<^verbatim>\<open>display\<close> style of
  \<^verbatim>\<open>loading-bar\<close>, the \<^verbatim>\<open>width\<close> style of \<^verbatim>\<open>loading-progress\<close> in percent, and the text and
  \<^verbatim>\<open>display\<close> style of \<^verbatim>\<open>info\<close>.
\<close>

record viewer = page +
  view :: viewport
  object :: "gltf_scene option"
  objToRender :: string
  ambientintensity :: real
  loading_bar_display :: string
  loading_progress_width :: real
  info_innerText :: string
  info_display :: string

text \<open>
  The \<^verbatim>\<open>switch (modelName)\<close> of the success callback: the base scale factor and the ambient
  intensity of a model; \<open>None\<close> is the \<^verbatim>\<open>default\<close> branch, which sets neither.
\<close>

definition model_settings :: "string \<Rightarrow> (real \<times> real) option" where
  "model_settings modelName =
     (if modelName = ''lowerlimb_2_diffuse'' then Some (0.75, 0.8)
      else if modelName = ''lowerlimb_2_polarized'' then Some (0.75, 1.2)
      else if modelName = ''lowerlimb_diffuse'' then Some (1, 0.6)
      else if modelName = ''lowerlimb_polarized'' then Some (0.75, 1.0)
      else if modelName = ''lowerlimb_polarized_Annotations'' then Some (0.8, 1.0)
      else if modelName = ''lowerlimb_diffuse_Annotations'' then Some (0.8, 0.5)
      else if modelName = ''Upperlimb_diffuse'' then Some (1, 0.5)
      else if modelName = ''Upperlimb_diffuse_Annotations'' then Some (1, 0.5)
      else if modelName = ''Upperlimb_diffuse_quiz'' then Some (1, 0.5)
      else if modelName = ''Upperlimb_polarized'' then Some (1, 1.2)
      else if modelName = ''Upperlimb_polarized_Annotations'' then Some (1, 1.2)
      else None)"

text \<open>\<^verbatim>\<open>ambientLight.intensity = a\<close>, on the one ambient light of the scene.\<close>

fun set_ambient :: "real \<Rightarrow> scene_node \<Rightarrow> scene_node" where
  "set_ambient a (AmbientLight _) = AmbientLight a"
| "set_ambient a (DirectionalLight i p) = DirectionalLight i p"
| "set_ambient a (Model g) = Model g"

text \<open>
  The synchronous part of \<^verbatim>\<open>loadModel(modelName)\<close>. \<^verbatim>\<open>camera.lookAt(0, 0, 0)\<close> from
  \<open>(0, 0, 5)\<close> gives the identity quaternion.
\<close>

definition main_loadModel :: "viewer \<Rightarrow> viewer" where
  "main_loadModel s =
     (let s1 = showSpinner s;
          s2 = s1\<lparr>view := (view s1)\<lparr>camera_position := Vector3 0 0 5,
                                     camera_quaternion := quat_identity\<rparr>\<rparr>
      in s2\<lparr>loading_bar_display := ''block''\<rparr>)"

text \<open>The three callbacks of \<^verbatim>\<open>loader.load\<close>: success, progress, error.\<close>

definition main_onLoad :: "string \<Rightarrow> gltf_scene \<Rightarrow> viewer \<Rightarrow> viewer" where
  "main_onLoad modelName gltf s =
     (let objectSize = bbox_size gltf;
          desiredSize = 2;
          (scaleFactor, ambient) =
             (case model_settings modelName of
                Some (sf, ai) \<Rightarrow> (sf, ai)
              | None \<Rightarrow> (1, ambientintensity s));
          maxDimension = max (vec_x objectSize) (max (vec_y objectSize) (vec_z objectSize));
          scaleToFit = desiredSize / maxDimension;
          scaleFactor = scaleFactor * scaleToFit;
          obj = gltf\<lparr>scale := Vector3 scaleFactor scaleFactor scaleFactor\<rparr>;
          objectPosition = bbox_center gltf;
          objectRadius = bbox_sphere_radius gltf;
          cameraDistance = objectRadius * 2;
          s1 = s\<lparr>object := Some obj, ambientintensity := ambient,
                 view := (view s)\<lparr>
                   scene_children := map (set_ambient ambient) (scene_children (view s)) @ [Model obj],
                   camera_position := vec_add objectPosition (Vector3 0 0 cameraDistance),
                   controls_target := objectPosition\<rparr>\<rparr>
      in hideSpinner (s1\<lparr>loading_bar_display := ''none''\<rparr>))"

definition main_onProgress :: "real \<Rightarrow> real \<Rightarrow> viewer \<Rightarrow> viewer" where
  "main_onProgress xhr_loaded xhr_total s =
     (let progress = (xhr_loaded / xhr_total) * 100 in s\<lparr>loading_progress_width := progress\<rparr>)"

definition main_onError :: "viewer \<Rightarrow> viewer" where
  "main_onError s = hideSpinner s"

text \<open>The \<^verbatim>\<open>change\<close> listener of the \<^verbatim>\<open>model-select\<close> drop-down.\<close>

definition model_select_change :: "string \<Rightarrow> viewer \<Rightarrow> viewer" where
  "model_select_change v s =
     (let s1 = s\<lparr>objToRender := v\<rparr>;
          s2 = (case object s1 of
                  Some obj \<Rightarrow>
                    s1\<lparr>view := (view s1)\<lparr>scene_children :=
                                   remove1 (Model obj) (scene_children (view s1))\<rparr>\<rparr>
                | None \<Rightarrow> s1)
      in main_loadModel s2)"

text \<open>
  A hit reported by \<^verbatim>\<open>raycaster.intersectObjects(scene.children, true)\<close>: its distance from
  the ray origin and the name of the object hit. three.js returns the hits sorted by
  distance, nearest first.
\<close>

record intersection =
  hit_distance :: real
  hit_object_name :: string

text \<open>\<^verbatim>\<open>name.replace(/_/g, ' ')\<close>\<close>

definition replace_underscores :: "string \<Rightarrow> string" where
  "replace_underscores name = map (\<lambda>c. if c = CHR ''_'' then CHR '' '' else c) name"

definition onPointerDown :: "intersection list \<Rightarrow> viewer \<Rightarrow> viewer" where
  "onPointerDown intersects s =
     (if length intersects > 0
      then (let intersectedObject = hd intersects
            in if hit_object_name intersectedObject \<noteq> ''Mesh''
               then s\<lparr>info_innerText := replace_underscores (hit_object_name intersectedObject),
                      info_display := ''block''\<rparr>
               else s\<lparr>info_display := ''none''\<rparr>)
      else s\<lparr>info_display := ''none''\<rparr>)"

text \<open>
  The page once the top level of main.js has run, for the model \<open>m\<close> selected in the
  drop-down: the first \<^verbatim>\<open>loadModel\<close> call is made, lights and controls exist, and the
  progress bar has the width of the style sheet.
\<close>

definition main_init :: "string \<Rightarrow> viewer" where
  "main_init m =
     main_loadModel
       \<lparr>loading_spinner_display = [],
        view = \<lparr>camera_position = Vector3 0 0 0, camera_quaternion = quat_identity,
                controls_enabled = True, controls_target = Vector3 0 0 0,
                scene_children =
                  [AmbientLight 0.5, DirectionalLight 0.5 (Vector3 0 1 1),
                   DirectionalLight 0.5 (Vector3 0 1 (-1))]\<rparr>,
        object = None, objToRender = m, ambientintensity = 0.5,
        loading_bar_display = [], loading_progress_width = 0,
        info_innerText = [], info_display = []\<rparr>"

datatype main_event =
    Select string
  | Progress real real
  | LoadSuccess string gltf_scene
  | LoadError
  | PointerDown "intersection list"

fun main_step :: "viewer \<Rightarrow> main_event \<Rightarrow> viewer" where
  "main_step s (Select v) = model_select_change v s"
| "main_step s (Progress xhr_loaded xhr_total) = main_onProgress xhr_loaded xhr_total s"
| "main_step s (LoadSuccess modelName gltf) = main_onLoad modelName gltf s"
| "main_step s LoadError = main_onError s"
| "main_step s (PointerDown intersects) = onPointerDown intersects s"

definition main_run :: "viewer \<Rightarrow> main_event list \<Rightarrow> viewer" where
  "main_run s es = foldl main_step s es"

section \<open>The quiz\<close>

text \<open>
  The quiz functions are the same in the two-panel quiz script and in upperlimb_quiz.js;
  only the table \<^verbatim>\<open>quizData\<close> differs, so the functions take it as a parameter.
\<close>

record quiz_item =
  question :: string
  options :: "string list"
  answer :: string

text \<open>The table of the two-panel quiz script (lower limb).\<close>

definition quizData :: "quiz_item list" where
  "quizData =
     [
      \<lparr>question = ''Name structure number 1'',
       options = [''m quadratus lumborum'',
                  ''m iliacus'',
                  ''m psoas major'',
                  ''m psoas minor'',
                  ''m multifidus'',
                  ''m transversus abdominis''],
       answer = ''m iliacus''\<rparr>,
      \<lparr>question = ''Name structure number 2'',
       options = [''m vastus lateralis'',
                  ''m vastus intermedius'',
                  ''m tractus iliotibialis'',
                  ''m tensor facia latae'',
                  ''m vastus medialis'',
                  ''m rectus femoris''],
       answer = ''m tensor facia latae''\<rparr>,
      \<lparr>question = ''Name structure number 3'',
       options = [''n peroneus communis'',
                  ''n obturatorius'',
                  ''n ischiadicus'',
                  ''n femoralis'',
                  ''n tibialis'',
                  ''n fibularis''],
       answer = ''n femoralis''\<rparr>,
      \<lparr>question = ''Which of the following statements is correct for structure 4?'',
       options = [''this nerve innervates the m adductor longus'',
                  ''this artery supplies blood to the tensor fascia latae'',
                  ''this artery supplies blood to the vastus lateralis'',
                  ''this vein receives blood from the v saphena magna'',
                  ''this vein goes to the external iliac crest'',
                  ''this artery is located in the lacuna vasorum''],
       answer = ''this artery is located in the lacuna vasorum''\<rparr>,
      \<lparr>question = ''Which statement is false for structure 5?'',
       options = [''the origin of this muscle is the anterior superior iliac spine'',
                  ''the insertion of this muscle is the facies medialis of the tibia, medial to the tuberosity'',
                  ''the innervation of this muscle is the n femoralis'',
                  ''the blood supply of this muscle is the a circumflexa femoris medialis'',
                  ''this muscle does, among other things, flexion and abduction of the thigh'',
                  ''this muscle is part of the pes anserinus''],
       answer = ''the blood supply of this muscle is the a circumflexa femoris medialis''\<rparr>,
      \<lparr>question = ''Name structure number 6'',
       options = [''m adductor longus'',
                  ''m adductor brevis'',
                  ''m adductor magnus'',
                  ''m adductor minimus'',
                  ''m pectineus'',
                  ''m gracilis''],
       answer = ''m adductor longus''\<rparr>,
      \<lparr>question = ''Name structure number 7'',
       options = [''a tibialis anterior'',
                  ''a tibialis posterior'',
                  ''n peroneus superfiscialis'',
                  ''n peroneus profundus'',
                  ''v saphenous parva'',
                  ''v saphena magna''],
       answer = ''v saphena magna''\<rparr>,
      \<lparr>question = ''What structure is not in this compartment (number 8)?'',
       options = [''a tibialis posterior'',
                  ''a peronea'',
                  ''n tibialis'',
                  ''m plantaris'',
                  ''m tibialis posterior'',
                  ''m flexor hallucis longus''],
       answer = ''m plantaris''\<rparr>,
      \<lparr>question = ''What is the origin of structure 9?'',
       options = [''L4-S3'',
                  ''L5-S2'',
                  ''L1-L4'',
                  ''T12-L5'',
                  ''S1-S3'',
                  ''S1-Co2''],
       answer = ''L4-S3''\<rparr>,
      \<lparr>question = ''What is the insertion of structure 10?'',
       options = [''fossa intertrochanterica femoris'',
                  ''linea intertrochanterica femoris'',
                  ''greater trochanter femoris'',
                  ''lesser trochanter femoris'',
                  ''linea aspera labium mediale'',
                  ''linea aspera labium laterale''],
       answer = ''greater trochanter femoris''\<rparr>]"

text \<open>
  The content of \<^verbatim>\<open>optionsElement\<close>: the option buttons that \<^verbatim>\<open>showQuestion\<close> appends, or the
  markup that \<^verbatim>\<open>showResult\<close> assigns to \<^verbatim>\<open>innerHTML\<close>.
\<close>

datatype options_content =
    Buttons "string list"
  | InnerHTML string

record quiz =
  currentQuestion :: nat
  score :: nat
  questionElement :: string
  optionsElement :: options_content

text \<open>
  Reading a property of \<^verbatim>\<open>quizData[currentQuestion]\<close> past the end of the table throws a
  TypeError. A handler that throws stops there, and the page lives on with the state it
  had at the throw: \<open>Inl\<close> carries the error and that state.
\<close>

datatype js_error = TypeError

type_synonym quiz_result = "(js_error \<times> quiz) + quiz"

text \<open>A number inside a template literal: its decimal digits.\<close>

fun string_of_nat :: "nat \<Rightarrow> string" where
  "string_of_nat n =
     (if n < 10 then [''0123456789'' ! n]
      else string_of_nat (n div 10) @ [''0123456789'' ! (n mod 10)])"

definition showQuestion :: "quiz_item list \<Rightarrow> quiz \<Rightarrow> quiz_result" where
  "showQuestion qd s =
     (if currentQuestion s < length qd
      then (let q = qd ! currentQuestion s
            in Inr (s\<lparr>questionElement := question q, optionsElement := Buttons (options q)\<rparr>))
      else Inl (TypeError, s))"

definition showResult :: "quiz_item list \<Rightarrow> quiz \<Rightarrow> quiz" where
  \<open>showResult qd s =
     (let resultHTML = ''<h1>Completed!</h1>'';
          resultHTML = resultHTML @
            ''<p>Your score: '' @ string_of_nat (score s) @ ''/'' @ string_of_nat (length qd) @ ''</p>'';
          resultHTML = resultHTML @ ''<h2>Lets review the Correct Answers:</h2>'';
          resultHTML = resultHTML @
            concat (map (\<lambda>(index, q). ''<p>'' @ string_of_nat (index + 1) @ ''. '' @ answer q @ ''</p>'')
                        (enumerate 0 qd));
          resultHTML = resultHTML @ ''<button onclick="retakeQuiz()">Retake Quiz</button>''
      in s\<lparr>questionElement := [], optionsElement := InnerHTML resultHTML\<rparr>)\<close>

text \<open>\<^verbatim>\<open>selectAnswer(e)\<close>, with \<^verbatim>\<open>e.target.innerText\<close> as its argument.\<close>

definition selectAnswer :: "quiz_item list \<Rightarrow> string \<Rightarrow> quiz \<Rightarrow> quiz_result" where
  "selectAnswer qd selectedButton_innerText s =
     (if currentQuestion s < length qd
      then (let a = answer (qd ! currentQuestion s);
                s1 = (if selectedButton_innerText = a then s\<lparr>score := score s + 1\<rparr> else s);
                s2 = s1\<lparr>currentQuestion := currentQuestion s1 + 1\<rparr>
            in if currentQuestion s2 < length qd
               then showQuestion qd s2
               else Inr (showResult qd s2))
      else Inl (TypeError, s))"

definition retakeQuiz :: "quiz_item list \<Rightarrow> quiz \<Rightarrow> quiz_result" where
  "retakeQuiz qd s = showQuestion qd (s\<lparr>currentQuestion := 0, score := 0\<rparr>)"

fun state_after :: "quiz_result \<Rightarrow> quiz" where
  "state_after (Inl (e, s)) = s"
| "state_after (Inr s) = s"

text \<open>The page once the top level of the script has run: the first question is shown.\<close>

definition quiz_init :: "quiz_item list \<Rightarrow> quiz" where
  "quiz_init qd =
     state_after (showQuestion qd
       \<lparr>currentQuestion = 0, score = 0, questionElement = [], optionsElement = Buttons []\<rparr>)"

datatype quiz_event =
    ClickOption string
  | ClickRetake

fun quiz_step :: "quiz_item list \<Rightarrow> quiz \<Rightarrow> quiz_event \<Rightarrow> quiz_result" where
  "quiz_step qd s (ClickOption t) = selectAnswer qd t s"
| "quiz_step qd s ClickRetake = retakeQuiz qd s"

definition quiz_run :: "quiz_item list \<Rightarrow> quiz \<Rightarrow> quiz_event list \<Rightarrow> quiz" where
  "quiz_run qd s es = foldl (\<lambda>s e. state_after (quiz_step qd s e)) s es"

text \<open>
  How many of the selections \<open>ts\<close>, given in order from the first question on, are the
  stored answer of their question.
\<close>

definition correct_answers :: "quiz_item list \<Rightarrow> string list \<Rightarrow> nat" where
  "correct_answers qd ts = length (filter (\<lambda>(t, q). t = answer q) (zip ts qd))"

section \<open>Notions used in the statements\<close>

text \<open>The largest of the three extents of the bounding box (\<^verbatim>\<open>maxDimension\<close> in both loaders).\<close>

definition maxExtent :: "gltf_scene \<Rightarrow> real" where
  "maxExtent g = max (vec_x (bbox_size g)) (max (vec_y (bbox_size g)) (vec_z (bbox_size g)))"

text \<open>The value of \<^verbatim>\<open>scaleFactor\<close> in main.js when the \<^verbatim>\<open>switch\<close> is left.\<close>

definition base_scaleFactor :: "string \<Rightarrow> real" where
  "base_scaleFactor modelName =
     (case model_settings modelName of Some (sf, ai) \<Rightarrow> sf | None \<Rightarrow> 1)"

fun is_Loaded :: "dual_event \<Rightarrow> bool" where
  "is_Loaded (Loaded _ _) = True"
| "is_Loaded _ = False"

definition quiz_inv :: "quiz_item list \<Rightarrow> quiz \<Rightarrow> bool" where
  "quiz_inv qd s =
     (0 \<le> score s \<and> score s \<le> currentQuestion s \<and> currentQuestion s \<le> length qd)"









section \<open>The synchroniser: proofs\<close>

lemma dual_init_facts:
  "modelsLoaded dual_init = 0"
  "loading_spinner_display dual_init = ''block''"
  "syncEnabled dual_init"
  "controls_enabled (view1 dual_init)"
  "controls_enabled (view2 dual_init)"
  by (simp_all add: dual_init_def initSyncButton_def animate_def animate_sync_def
      loadModel_def showSpinner_def dual_blank_def new_viewport_def)

lemma dual_run_snoc: "dual_run s (es @ [e]) = dual_step (dual_run s es) e"
  by (simp add: dual_run_def)

lemma animate_pose:
  assumes "syncEnabled s"
  shows "camera_position (view2 (animate s)) = camera_position (view1 s)"
    and "camera_quaternion (view2 (animate s)) = camera_quaternion (view1 s)"
    and "camera_position (view1 (animate s)) = camera_position (view1 s)"
    and "camera_quaternion (view1 (animate s)) = camera_quaternion (view1 s)"
  using assms by (simp_all add: animate_def animate_sync_def)

lemma dual_step_enabled:
  assumes "controls_enabled (view1 s) \<and> controls_enabled (view2 s)"
  shows "controls_enabled (view1 (dual_step s e)) \<and> controls_enabled (view2 (dual_step s e))"
proof (cases e)
  case Tick
  with assms show ?thesis by (simp add: animate_def animate_sync_def)
next
  case Click_sync_button
  with assms show ?thesis by (simp add: toggleSync_def Let_def)
next
  case (Interaction v p q t)
  with assms show ?thesis
    by (cases v) (simp_all add: orbit_interaction_def controls_change_def)
next
  case (Loaded v g)
  with assms show ?thesis
    by (cases v) (simp_all add: loadModel_onLoad_def Let_def hideSpinner_def)
qed

lemma dual_run_enabled:
  assumes "controls_enabled (view1 s) \<and> controls_enabled (view2 s)"
  shows "controls_enabled (view1 (dual_run s es)) \<and> controls_enabled (view2 (dual_run s es))"
  using assms unfolding dual_run_def
  by (induction es arbitrary: s) (simp_all add: dual_step_enabled)

lemma interaction_mirrors:
  assumes "syncEnabled s" and "controls_enabled (get_view v s)"
  shows "camera_position (get_view v (orbit_interaction v p q t s)) = p"
    and "camera_quaternion (get_view v (orbit_interaction v p q t s)) = q"
    and "camera_position (get_view (other_view v) (orbit_interaction v p q t s)) = p"
    and "camera_quaternion (get_view (other_view v) (orbit_interaction v p q t s)) = q"
  using assms by (cases v; simp add: orbit_interaction_def controls_change_def)+

lemma dual_step_unsynced:
  assumes "\<not> syncEnabled s" and "touches_only v e"
  shows "\<not> syncEnabled (dual_step s e)"
    and "get_view (other_view v) (dual_step s e) = get_view (other_view v) s"
proof -
  have "\<not> syncEnabled (dual_step s e) \<and>
        get_view (other_view v) (dual_step s e) = get_view (other_view v) s"
  proof (cases e)
    case Tick
    with assms show ?thesis by (simp add: animate_def)
  next
    case (Interaction v' p q t)
    with assms show ?thesis
      by (cases v) (simp_all add: orbit_interaction_def controls_change_def)
  qed (use assms in simp_all)
  then show "\<not> syncEnabled (dual_step s e)"
    and "get_view (other_view v) (dual_step s e) = get_view (other_view v) s"
    by simp_all
qed

lemma dual_run_unsynced:
  assumes "\<not> syncEnabled s" and "list_all (touches_only v) es"
  shows "\<not> syncEnabled (dual_run s es) \<and>
         get_view (other_view v) (dual_run s es) = get_view (other_view v) s"
  using assms unfolding dual_run_def
proof (induction es arbitrary: s)
  case Nil
  then show ?case by simp
next
  case (Cons e es)
  then have e: "touches_only v e" and es: "list_all (touches_only v) es"
    by simp_all
  note st = dual_step_unsynced[OF Cons.prems(1) e]
  from Cons.IH[OF st(1) es] st(2) show ?case by simp
qed

lemma toggleSync_views:
  "view1 (toggleSync s) = view1 s" "view2 (toggleSync s) = view2 s"
  "syncEnabled (toggleSync s) = (\<not> syncEnabled s)"
  by (simp_all add: toggleSync_def Let_def)

text \<open>
  Claim C1. While sync is enabled, an interaction on either canvas leaves both cameras with
  the pose that the interaction produced, whatever happened before: any earlier events
  (interactions on either canvas in any order, frames, loads, clicks on the button), as
  long as sync is enabled when the interaction arrives. The controls are enabled in every
  state between two events, which is what the first two hypotheses say of the start.
\<close>

theorem sync_mirrors_interaction:
  assumes "controls_enabled (view1 s)" and "controls_enabled (view2 s)"
    and "syncEnabled (dual_run s es)"
  shows "(let s' = dual_run s (es @ [Interaction v p q t])
          in camera_position (get_view v s') = p \<and>
             camera_quaternion (get_view v s') = q \<and>
             camera_position (get_view (other_view v) s') = p \<and>
             camera_quaternion (get_view (other_view v) s') = q \<and>
             camera_position (view1 s') = camera_position (view2 s') \<and>
             camera_quaternion (view1 s') = camera_quaternion (view2 s'))"
proof -
  let ?m = "dual_run s es"
  have en: "controls_enabled (view1 ?m) \<and> controls_enabled (view2 ?m)"
    using assms(1,2) by (simp add: dual_run_enabled)
  then have "controls_enabled (get_view v ?m)" by (cases v) simp_all
  note m = interaction_mirrors[OF assms(3) this, of p q t]
  have "camera_position (view1 (orbit_interaction v p q t ?m)) = p"
       "camera_position (view2 (orbit_interaction v p q t ?m)) = p"
       "camera_quaternion (view1 (orbit_interaction v p q t ?m)) = q"
       "camera_quaternion (view2 (orbit_interaction v p q t ?m)) = q"
    using m by (cases v; simp)+
  with m show ?thesis by (simp add: dual_run_snoc Let_def)
qed

theorem sync_mirrors_interaction_witness:
  "controls_enabled (view1 dual_init) \<and> controls_enabled (view2 dual_init) \<and>
   syncEnabled (dual_run dual_init
     [Interaction V1 (Vector3 1 2 3) quat_identity (Vector3 0 0 0), Tick]) \<and>
   camera_position (view1 (dual_run dual_init
     [Interaction V1 (Vector3 1 2 3) quat_identity (Vector3 0 0 0), Tick,
      Interaction V2 (Vector3 4 0 3) \<lparr>quat_x = 0, quat_y = 1, quat_z = 0, quat_w = 0\<rparr>
        (Vector3 0 0 0)])) = Vector3 4 0 3 \<and>
   camera_quaternion (view1 (dual_run dual_init
     [Interaction V1 (Vector3 1 2 3) quat_identity (Vector3 0 0 0), Tick,
      Interaction V2 (Vector3 4 0 3) \<lparr>quat_x = 0, quat_y = 1, quat_z = 0, quat_w = 0\<rparr>
        (Vector3 0 0 0)])) = \<lparr>quat_x = 0, quat_y = 1, quat_z = 0, quat_w = 0\<rparr>"
proof -
  have h3: "syncEnabled (dual_run dual_init
     [Interaction V1 (Vector3 1 2 3) quat_identity (Vector3 0 0 0), Tick])"
    by (simp add: dual_run_def orbit_interaction_def controls_change_def animate_def
        animate_sync_def dual_init_facts)
  show ?thesis
    using h3 sync_mirrors_interaction[OF dual_init_facts(4) dual_init_facts(5) h3,
        where v = V2 and p = "Vector3 4 0 3"
          and q = "\<lparr>quat_x = 0, quat_y = 1, quat_z = 0, quat_w = 0\<rparr>"
          and t = "Vector3 0 0 0"]
    by (simp add: Let_def dual_init_facts)
qed

text \<open>
  Claim C5. On an animation frame with sync enabled, camera 2 takes the position and the
  quaternion that camera 1 has, and camera 1 keeps them, whatever events came before the
  frame, also when the last one was an interaction on canvas 2.
\<close>

theorem tick_overwrites_camera2:
  assumes "syncEnabled (dual_run s es)"
  shows "camera_position (view2 (dual_run s (es @ [Tick]))) = camera_position (view1 (dual_run s es)) \<and>
         camera_quaternion (view2 (dual_run s (es @ [Tick]))) = camera_quaternion (view1 (dual_run s es)) \<and>
         camera_position (view1 (dual_run s (es @ [Tick]))) = camera_position (view1 (dual_run s es)) \<and>
         camera_quaternion (view1 (dual_run s (es @ [Tick]))) = camera_quaternion (view1 (dual_run s es))"
  using animate_pose[OF assms] by (simp add: dual_run_snoc)

theorem tick_overwrites_camera2_witness:
  "syncEnabled (dual_run dual_init
     [Loaded V2 \<lparr>bbox_size = Vector3 2 2 1, bbox_center = Vector3 0 0 0,
                 bbox_sphere_radius = 1.5, scale = Vector3 1 1 1\<rparr>]) \<and>
   camera_position (view2 (dual_run dual_init
     [Loaded V2 \<lparr>bbox_size = Vector3 2 2 1, bbox_center = Vector3 0 0 0,
                 bbox_sphere_radius = 1.5, scale = Vector3 1 1 1\<rparr>])) = Vector3 0 0 2.7 \<and>
   camera_position (view2 (dual_run dual_init
     [Loaded V2 \<lparr>bbox_size = Vector3 2 2 1, bbox_center = Vector3 0 0 0,
                 bbox_sphere_radius = 1.5, scale = Vector3 1 1 1\<rparr>, Tick])) = Vector3 0 0 4"
proof -
  have h: "syncEnabled (dual_run dual_init
     [Loaded V2 \<lparr>bbox_size = Vector3 2 2 1, bbox_center = Vector3 0 0 0,
                 bbox_sphere_radius = 1.5, scale = Vector3 1 1 1\<rparr>])"
    by (simp add: dual_run_def loadModel_onLoad_def Let_def hideSpinner_def dual_init_facts)
  have b: "camera_position (view1 (dual_run dual_init
     [Loaded V2 \<lparr>bbox_size = Vector3 2 2 1, bbox_center = Vector3 0 0 0,
                 bbox_sphere_radius = 1.5, scale = Vector3 1 1 1\<rparr>])) = Vector3 0 0 4"
    by (simp add: dual_run_def loadModel_onLoad_def Let_def hideSpinner_def dual_init_def
        initSyncButton_def animate_def animate_sync_def loadModel_def showSpinner_def
        dual_blank_def new_viewport_def Vector3_def)
  have c: "camera_position (view2 (dual_run dual_init
     [Loaded V2 \<lparr>bbox_size = Vector3 2 2 1, bbox_center = Vector3 0 0 0,
                 bbox_sphere_radius = 1.5, scale = Vector3 1 1 1\<rparr>])) = Vector3 0 0 2.7"
    by (simp add: dual_run_def loadModel_onLoad_def Let_def hideSpinner_def dual_init_facts
        vec_add_def Vector3_def)
  have e: "camera_position (view2 (dual_run dual_init
     [Loaded V2 \<lparr>bbox_size = Vector3 2 2 1, bbox_center = Vector3 0 0 0,
                 bbox_sphere_radius = 1.5, scale = Vector3 1 1 1\<rparr>, Tick])) =
     camera_position (view1 (dual_run dual_init
     [Loaded V2 \<lparr>bbox_size = Vector3 2 2 1, bbox_center = Vector3 0 0 0,
                 bbox_sphere_radius = 1.5, scale = Vector3 1 1 1\<rparr>]))"
    using tick_overwrites_camera2[OF h] by simp
  from h c e[unfolded b] show ?thesis by (intro conjI)
qed

text \<open>
  Claim C6. While sync is disabled, interactions on one canvas and animation frames change
  neither the position nor the quaternion of the other canvas's camera, in either
  direction; and when the sync button is clicked in a state with sync enabled and such
  events follow, the other camera's quaternion and position are still what they were
  before the click.
\<close>

theorem unsynced_views_independent:
  assumes "list_all (touches_only v) es"
  shows "(\<not> syncEnabled s \<longrightarrow>
            camera_position (get_view (other_view v) (dual_run s es)) =
              camera_position (get_view (other_view v) s) \<and>
            camera_quaternion (get_view (other_view v) (dual_run s es)) =
              camera_quaternion (get_view (other_view v) s)) \<and>
         (syncEnabled s \<longrightarrow>
            camera_position (get_view (other_view v) (dual_run s (Click_sync_button # es))) =
              camera_position (get_view (other_view v) s) \<and>
            camera_quaternion (get_view (other_view v) (dual_run s (Click_sync_button # es))) =
              camera_quaternion (get_view (other_view v) s))"
proof (intro conjI impI)
  assume off: "\<not> syncEnabled s"
  from dual_run_unsynced[OF off assms]
  show "camera_position (get_view (other_view v) (dual_run s es)) =
          camera_position (get_view (other_view v) s)"
    and "camera_quaternion (get_view (other_view v) (dual_run s es)) =
          camera_quaternion (get_view (other_view v) s)"
    by simp_all
next
  assume on: "syncEnabled s"
  have run: "dual_run s (Click_sync_button # es) = dual_run (toggleSync s) es"
    by (simp add: dual_run_def)
  have off: "\<not> syncEnabled (toggleSync s)"
    using on by (simp add: toggleSync_views)
  have same: "get_view (other_view v) (toggleSync s) = get_view (other_view v) s"
    by (cases v) (simp_all add: toggleSync_views)
  from dual_run_unsynced[OF off assms] same
  show "camera_position (get_view (other_view v) (dual_run s (Click_sync_button # es))) =
          camera_position (get_view (other_view v) s)"
    and "camera_quaternion (get_view (other_view v) (dual_run s (Click_sync_button # es))) =
          camera_quaternion (get_view (other_view v) s)"
    by (simp_all add: run)
qed

theorem unsynced_views_independent_witness:
  "list_all (touches_only V1)
     [Interaction V1 (Vector3 4 0 3) \<lparr>quat_x = 0, quat_y = 1, quat_z = 0, quat_w = 0\<rparr>
        (Vector3 0 0 0), Tick] \<and>
   syncEnabled dual_init \<and> \<not> syncEnabled (toggleSync dual_init) \<and>
   camera_quaternion (view2 (dual_run dual_init
     [Click_sync_button,
      Interaction V1 (Vector3 4 0 3) \<lparr>quat_x = 0, quat_y = 1, quat_z = 0, quat_w = 0\<rparr>
        (Vector3 0 0 0), Tick])) = camera_quaternion (view2 dual_init) \<and>
   camera_quaternion (view2 (dual_run (toggleSync dual_init)
     [Interaction V1 (Vector3 4 0 3) \<lparr>quat_x = 0, quat_y = 1, quat_z = 0, quat_w = 0\<rparr>
        (Vector3 0 0 0), Tick])) = camera_quaternion (view2 (toggleSync dual_init))"
proof -
  have l: "list_all (touches_only V1)
     [Interaction V1 (Vector3 4 0 3) \<lparr>quat_x = 0, quat_y = 1, quat_z = 0, quat_w = 0\<rparr>
        (Vector3 0 0 0), Tick]"
    by simp
  have off: "\<not> syncEnabled (toggleSync dual_init)"
    by (simp add: toggleSync_views dual_init_facts)
  show ?thesis
    using l off dual_init_facts(3)
      unsynced_views_independent[OF l, where s = dual_init]
      unsynced_views_independent[OF l, where s = "toggleSync dual_init"]
    by simp
qed

text \<open>
  Claim C4, as amended. On an animation frame with sync enabled, both controls are disabled
  before the pose is copied and both are enabled again after it. The two change listeners
  consist of the two copy statements only: they copy the pose without disabling the
  controls and leave both \<^verbatim>\<open>enabled\<close> flags as they were. No statement of either body
  dispatches an event, so neither copy is interrupted by a notification.
\<close>

theorem tick_copy_guarded_listener_copy_plain:
  assumes "syncEnabled s"
  shows "animate s = exec_stmts animate_sync s \<and>
         copies_guarded animate_sync s \<and>
         controls_enabled (view1 (animate s)) \<and>
         controls_enabled (view2 (animate s)) \<and>
         controls_change v s = exec_stmts (change_sync v) s \<and>
         list_all is_copy (change_sync v) \<and>
         controls_enabled (view1 (controls_change v s)) = controls_enabled (view1 s) \<and>
         controls_enabled (view2 (controls_change v s)) = controls_enabled (view2 s)"
proof -
  have a: "animate s = exec_stmts animate_sync s"
    using assms by (simp add: animate_def)
  have b: "copies_guarded animate_sync s"
    by (simp add: animate_sync_def)
  have c: "controls_enabled (view1 (animate s)) \<and> controls_enabled (view2 (animate s))"
    using assms by (simp add: animate_def animate_sync_def)
  have d: "controls_change v s = exec_stmts (change_sync v) s"
    using assms by (simp add: controls_change_def)
  have e: "list_all is_copy (change_sync v)"
    by (cases v) simp_all
  have f: "controls_enabled (view1 (controls_change v s)) = controls_enabled (view1 s) \<and>
           controls_enabled (view2 (controls_change v s)) = controls_enabled (view2 s)"
    by (cases v) (simp_all add: controls_change_def)
  from a b c d e f show ?thesis by blast
qed

theorem tick_copy_guarded_listener_copy_plain_witness:
  "syncEnabled dual_init \<and> copies_guarded animate_sync dual_init \<and>
   controls_enabled (view1 (animate dual_init)) \<and>
   controls_enabled (view2 (controls_change V1 dual_init))"
proof -
  note t = tick_copy_guarded_listener_copy_plain[OF dual_init_facts(3), where v = V1]
  from t have a: "copies_guarded animate_sync dual_init"
    and b: "controls_enabled (view1 (animate dual_init))"
    and c: "controls_enabled (view2 (controls_change V1 dual_init)) =
            controls_enabled (view2 dual_init)"
    by blast+
  from c dual_init_facts(5) have "controls_enabled (view2 (controls_change V1 dual_init))"
    by blast
  with a b dual_init_facts(3) show ?thesis by blast
qed

text \<open>
  The claim as stated fails on the change listeners: an interaction on canvas 1 of the
  freshly loaded page runs the listener body in a state where sync is enabled and the
  controls are enabled, and the copies start with the controls still enabled.
\<close>

theorem listener_copy_unguarded_counterexample:
  "syncEnabled dual_init \<and>
   orbit_interaction V1 (Vector3 4 0 3) quat_identity (Vector3 0 0 0) dual_init =
     exec_stmts (change_sync V1)
       (dual_init\<lparr>view1 := (view1 dual_init)\<lparr>camera_position := Vector3 4 0 3,
          camera_quaternion := quat_identity, controls_target := Vector3 0 0 0\<rparr>\<rparr>) \<and>
   \<not> copies_guarded (change_sync V1)
       (dual_init\<lparr>view1 := (view1 dual_init)\<lparr>camera_position := Vector3 4 0 3,
          camera_quaternion := quat_identity, controls_target := Vector3 0 0 0\<rparr>\<rparr>)"
  by (simp add: orbit_interaction_def controls_change_def dual_init_facts)

text \<open>
  Claim C9. \<^verbatim>\<open>toggleSync\<close> negates \<^verbatim>\<open>syncEnabled\<close>, sets the button's background colour to green
  when sync is now enabled and to red when it is not, and changes nothing else: both
  viewports (cameras, controls, scenes), the count of loaded models, the list of objects
  and the spinner are as before, and putting the old values of the two fields back gives
  the old state.
\<close>

theorem toggleSync_frame:
  "syncEnabled (toggleSync s) = (\<not> syncEnabled s) \<and>
   sync_button_backgroundColor (toggleSync s) =
     (if syncEnabled (toggleSync s) then ''#00FF00'' else ''#FF0000'') \<and>
   view1 (toggleSync s) = view1 s \<and>
   view2 (toggleSync s) = view2 s \<and>
   modelsLoaded (toggleSync s) = modelsLoaded s \<and>
   objects (toggleSync s) = objects s \<and>
   loading_spinner_display (toggleSync s) = loading_spinner_display s \<and>
   (toggleSync s)\<lparr>syncEnabled := syncEnabled s,
      sync_button_backgroundColor := sync_button_backgroundColor s\<rparr> = s \<and>
   toggleSync (toggleSync s) = s\<lparr>sync_button_backgroundColor :=
      (if syncEnabled s then ''#00FF00'' else ''#FF0000'')\<rparr>"
  by (simp add: toggleSync_def Let_def)

section \<open>The loaders: proofs\<close>



lemma loadModel_onLoad_objects:
  "objects (loadModel_onLoad v zoomFactor gltf s) = objects s @
     [gltf\<lparr>scale := Vector3 (2 / maxExtent gltf) (2 / maxExtent gltf) (2 / maxExtent gltf)\<rparr>]"
  by (cases v) (simp_all add: loadModel_onLoad_def Let_def hideSpinner_def maxExtent_def)


lemma main_onLoad_object:
  "object (main_onLoad modelName gltf m) =
     Some (gltf\<lparr>scale := Vector3 (base_scaleFactor modelName * (2 / maxExtent gltf))
                                (base_scaleFactor modelName * (2 / maxExtent gltf))
                                (base_scaleFactor modelName * (2 / maxExtent gltf))\<rparr>)"
  by (simp add: main_onLoad_def Let_def hideSpinner_def maxExtent_def base_scaleFactor_def
      split: option.splits prod.splits)
















text \<open>
  Claim C3, as amended. For every model whose bounding box has a positive largest extent,
  the loader scales the object uniformly by a factor \<open>k\<close> with
  \<open>maxExtent * k = desiredSize * baseFactor\<close>, whatever the extent is: \<open>desiredSize\<close> is 2,
  and \<open>baseFactor\<close> is 1 in the two-panel view and, in the single-panel viewer, the factor
  that the table gives for the model (1 for a model the table does not list).
\<close>

theorem scale_fits_desired_size_times_base:
  assumes "0 < maxExtent gltf"
  shows "(let obj = last (objects (loadModel_onLoad v zoomFactor gltf s));
              k = vec_x (scale obj)
          in scale obj = Vector3 k k k \<and> maxExtent gltf * k = 2) \<and>
         (case object (main_onLoad modelName gltf m) of
            None \<Rightarrow> False
          | Some obj \<Rightarrow>
              (let k = vec_x (scale obj)
               in scale obj = Vector3 k k k \<and>
                  maxExtent gltf * k = 2 * base_scaleFactor modelName))"
  using assms by (simp add: loadModel_onLoad_objects main_onLoad_object Vector3_def)

theorem scale_fits_desired_size_times_base_witness:
  "0 < maxExtent \<lparr>bbox_size = Vector3 2 2 1, bbox_center = Vector3 0 0 0,
       bbox_sphere_radius = 1.5, scale = Vector3 1 1 1\<rparr> \<and>
   (case object (main_onLoad ''lowerlimb_2_diffuse''
        \<lparr>bbox_size = Vector3 2 2 1, bbox_center = Vector3 0 0 0,
         bbox_sphere_radius = 1.5, scale = Vector3 1 1 1\<rparr>
        (main_init ''lowerlimb_2_diffuse'')) of
      None \<Rightarrow> False
    | Some obj \<Rightarrow>
        maxExtent \<lparr>bbox_size = Vector3 2 2 1, bbox_center = Vector3 0 0 0,
          bbox_sphere_radius = 1.5, scale = Vector3 1 1 1\<rparr> * vec_x (scale obj) = 2 * 0.75)"
proof -
  have h: "0 < maxExtent \<lparr>bbox_size = Vector3 2 2 1, bbox_center = Vector3 0 0 0,
       bbox_sphere_radius = 1.5, scale = Vector3 1 1 1\<rparr>"
    by (simp add: maxExtent_def Vector3_def)
  have b: "base_scaleFactor ''lowerlimb_2_diffuse'' = 0.75"
    by (simp add: base_scaleFactor_def model_settings_def)
  show ?thesis
    using h scale_fits_desired_size_times_base[OF h, where v = V1 and zoomFactor = 1
        and s = dual_init and modelName = "''lowerlimb_2_diffuse''"
        and m = "main_init ''lowerlimb_2_diffuse''"]
    by (simp add: b Let_def split: option.splits)
qed

text \<open>
  The claim as stated fails in the single-panel viewer for a model whose base factor is
  not 1: a box of 2 by 2 by 1 loaded as \<^verbatim>\<open>lowerlimb_2_diffuse\<close> is scaled by 0.75, and 2 times
  0.75 is 1.5, not the desired size 2.
\<close>

theorem scale_fit_counterexample:
  "object (main_onLoad ''lowerlimb_2_diffuse''
      \<lparr>bbox_size = Vector3 2 2 1, bbox_center = Vector3 0 0 0, bbox_sphere_radius = 1.5,
       scale = Vector3 1 1 1\<rparr> (main_init ''lowerlimb_2_diffuse''))
   = Some \<lparr>bbox_size = Vector3 2 2 1, bbox_center = Vector3 0 0 0, bbox_sphere_radius = 1.5,
       scale = Vector3 0.75 0.75 0.75\<rparr> \<and>
   maxExtent \<lparr>bbox_size = Vector3 2 2 1, bbox_center = Vector3 0 0 0,
       bbox_sphere_radius = 1.5, scale = Vector3 1 1 1\<rparr> = 2 \<and>
   maxExtent \<lparr>bbox_size = Vector3 2 2 1, bbox_center = Vector3 0 0 0,
       bbox_sphere_radius = 1.5, scale = Vector3 1 1 1\<rparr> * 0.75 \<noteq> 2"
  by (simp add: main_onLoad_object base_scaleFactor_def model_settings_def maxExtent_def
      Vector3_def)

section \<open>The progress surface: proofs\<close>

lemma dual_step_spinner:
  "modelsLoaded (dual_step s e) = modelsLoaded s + (if is_Loaded e then 1 else 0) \<and>
   loading_spinner_display (dual_step s e) =
     (if is_Loaded e \<and> modelsLoaded s + 1 = 2 then ''none'' else loading_spinner_display s)"
proof (cases e)
  case Tick
  then show ?thesis by (simp add: animate_def animate_sync_def)
next
  case Click_sync_button
  then show ?thesis by (simp add: toggleSync_def Let_def)
next
  case (Interaction v p q t)
  then show ?thesis by (cases v) (simp_all add: orbit_interaction_def controls_change_def)
next
  case (Loaded v g)
  then show ?thesis by (cases v) (simp_all add: loadModel_onLoad_def Let_def hideSpinner_def)
qed

lemma dual_run_spinner:
  assumes "loading_spinner_display s = (if 2 \<le> modelsLoaded s then ''none'' else ''block'')"
  shows "modelsLoaded (dual_run s es) = modelsLoaded s + length (filter is_Loaded es) \<and>
         loading_spinner_display (dual_run s es) =
           (if 2 \<le> modelsLoaded (dual_run s es) then ''none'' else ''block'')"
  using assms unfolding dual_run_def
proof (induction es arbitrary: s)
  case Nil
  then show ?case by simp
next
  case (Cons e es)
  have "loading_spinner_display (dual_step s e) =
          (if 2 \<le> modelsLoaded (dual_step s e) then ''none'' else ''block'')"
    using Cons.prems dual_step_spinner[of s e] by (auto split: if_splits)
  from Cons.IH[OF this] dual_step_spinner[of s e] show ?case by simp
qed

lemma loadModel_spinner: "loading_spinner_display (loadModel v z a s) = ''block''"
  by (cases v) (simp_all add: loadModel_def showSpinner_def)

text \<open>
  Claim C7, as amended. In the single-panel viewer, starting a load shows the spinner and
  the loading bar and leaves the width of the progress bar as it was; a progress event
  with a non-zero total sets the width to \<open>loaded / total * 100\<close> percent and changes the
  visibility of neither; success hides the spinner and the loading bar; an error hides
  the spinner. In the two-panel view, starting a load shows the spinner, every successful
  load is counted, and from the loaded page on the spinner is hidden exactly when at
  least two loads have succeeded and shown before.
\<close>

theorem progress_surface_lifecycle:
  assumes "xhr_total \<noteq> 0"
  shows
   "(loading_spinner_display (main_loadModel m) = ''block'' \<and>
     loading_bar_display (main_loadModel m) = ''block'' \<and>
     loading_progress_width (main_loadModel m) = loading_progress_width m) \<and>
    (loading_progress_width (main_onProgress xhr_loaded xhr_total m) =
       xhr_loaded / xhr_total * 100 \<and>
     loading_spinner_display (main_onProgress xhr_loaded xhr_total m) =
       loading_spinner_display m \<and>
     loading_bar_display (main_onProgress xhr_loaded xhr_total m) = loading_bar_display m) \<and>
    (loading_spinner_display (main_onLoad modelName gltf m) = ''none'' \<and>
     loading_bar_display (main_onLoad modelName gltf m) = ''none'') \<and>
    loading_spinner_display (main_onError m) = ''none'' \<and>
    loading_spinner_display (loadModel v zoomFactor ambientLightIntensity s) = ''block'' \<and>
    (modelsLoaded (dual_run dual_init es) = length (filter is_Loaded es) \<and>
     (loading_spinner_display (dual_run dual_init es) = ''none'') =
       (2 \<le> length (filter is_Loaded es)) \<and>
     (loading_spinner_display (dual_run dual_init es) = ''block'') =
       (length (filter is_Loaded es) < 2))"
proof -
  have a: "loading_spinner_display (main_loadModel m) = ''block'' \<and>
     loading_bar_display (main_loadModel m) = ''block'' \<and>
     loading_progress_width (main_loadModel m) = loading_progress_width m"
    by (simp add: main_loadModel_def Let_def showSpinner_def)
  have b: "loading_progress_width (main_onProgress xhr_loaded xhr_total m) =
       xhr_loaded / xhr_total * 100 \<and>
     loading_spinner_display (main_onProgress xhr_loaded xhr_total m) =
       loading_spinner_display m \<and>
     loading_bar_display (main_onProgress xhr_loaded xhr_total m) = loading_bar_display m"
    by (simp add: main_onProgress_def Let_def)
  have c: "loading_spinner_display (main_onLoad modelName gltf m) = ''none'' \<and>
     loading_bar_display (main_onLoad modelName gltf m) = ''none''"
    by (simp add: main_onLoad_def Let_def hideSpinner_def split: option.splits prod.splits)
  have d: "loading_spinner_display (main_onError m) = ''none''"
    by (simp add: main_onError_def hideSpinner_def)
  have i: "loading_spinner_display dual_init =
             (if 2 \<le> modelsLoaded dual_init then ''none'' else ''block'')"
    by (simp add: dual_init_facts)
  have e: "modelsLoaded (dual_run dual_init es) = length (filter is_Loaded es) \<and>
     (loading_spinner_display (dual_run dual_init es) = ''none'') =
       (2 \<le> length (filter is_Loaded es)) \<and>
     (loading_spinner_display (dual_run dual_init es) = ''block'') =
       (length (filter is_Loaded es) < 2)"
    using dual_run_spinner[OF i, of es] by (auto simp: dual_init_facts)
  from a b c d e loadModel_spinner show ?thesis by blast
qed

theorem progress_surface_lifecycle_witness:
  "(10::real) \<noteq> 0 \<and>
   loading_progress_width (main_onProgress 5 10 (main_init ''Upperlimb_diffuse'')) = 50 \<and>
   loading_spinner_display (dual_run dual_init
     [Loaded V1 \<lparr>bbox_size = Vector3 2 2 1, bbox_center = Vector3 0 0 0,
                 bbox_sphere_radius = 1.5, scale = Vector3 1 1 1\<rparr>, Tick]) = ''block'' \<and>
   loading_spinner_display (dual_run dual_init
     [Loaded V1 \<lparr>bbox_size = Vector3 2 2 1, bbox_center = Vector3 0 0 0,
                 bbox_sphere_radius = 1.5, scale = Vector3 1 1 1\<rparr>, Tick,
      Loaded V2 \<lparr>bbox_size = Vector3 4 2 4, bbox_center = Vector3 0 1 0,
                 bbox_sphere_radius = 3, scale = Vector3 1 1 1\<rparr>]) = ''none''"
proof -
  let ?g1 = "\<lparr>bbox_size = Vector3 2 2 1, bbox_center = Vector3 0 0 0,
                 bbox_sphere_radius = 1.5, scale = Vector3 1 1 1\<rparr>"
  let ?g2 = "\<lparr>bbox_size = Vector3 4 2 4, bbox_center = Vector3 0 1 0,
                 bbox_sphere_radius = 3, scale = Vector3 1 1 1\<rparr>"
  have h: "(10::real) \<noteq> 0" by simp
  note t1 = progress_surface_lifecycle[OF h, where xhr_loaded = 5
      and m = "main_init ''Upperlimb_diffuse''" and es = "[Loaded V1 ?g1, Tick]"]
  note t2 = progress_surface_lifecycle[OF h, where xhr_loaded = 5
      and m = "main_init ''Upperlimb_diffuse''" and es = "[Loaded V1 ?g1, Tick, Loaded V2 ?g2]"]
  from t1 have w: "loading_progress_width (main_onProgress 5 10
      (main_init ''Upperlimb_diffuse'')) = 5 / 10 * 100"
    by blast
  then have w': "loading_progress_width (main_onProgress 5 10
      (main_init ''Upperlimb_diffuse'')) = 50"
    by simp
  from t1 have "(loading_spinner_display (dual_run dual_init [Loaded V1 ?g1, Tick]) = ''block'') =
      (length (filter is_Loaded [Loaded V1 ?g1, Tick]) < 2)"
    by blast
  then have b1: "loading_spinner_display (dual_run dual_init [Loaded V1 ?g1, Tick]) = ''block''"
    by simp
  from t2 have "(loading_spinner_display (dual_run dual_init
        [Loaded V1 ?g1, Tick, Loaded V2 ?g2]) = ''none'') =
      (2 \<le> length (filter is_Loaded [Loaded V1 ?g1, Tick, Loaded V2 ?g2]))"
    by blast
  then have b2: "loading_spinner_display (dual_run dual_init
        [Loaded V1 ?g1, Tick, Loaded V2 ?g2]) = ''none''"
    by simp
  from h w' b1 b2 show ?thesis by blast
qed

text \<open>
  The claim as stated fails at the start of a second load in the single-panel viewer:
  after a load that reported all 10 of 10 bytes and succeeded, selecting another model
  starts a load with the progress bar still at 100 percent, not at 0.
\<close>

theorem progress_not_reset_counterexample:
  "loading_bar_display
     (main_run (main_init ''Upperlimb_diffuse'')
        [Progress 10 10,
         LoadSuccess ''Upperlimb_diffuse''
           \<lparr>bbox_size = Vector3 2 2 1, bbox_center = Vector3 0 0 0, bbox_sphere_radius = 1.5,
            scale = Vector3 1 1 1\<rparr>,
         Select ''lowerlimb_diffuse'']) = ''block'' \<and>
   loading_progress_width
     (main_run (main_init ''Upperlimb_diffuse'')
        [Progress 10 10,
         LoadSuccess ''Upperlimb_diffuse''
           \<lparr>bbox_size = Vector3 2 2 1, bbox_center = Vector3 0 0 0, bbox_sphere_radius = 1.5,
            scale = Vector3 1 1 1\<rparr>,
         Select ''lowerlimb_diffuse'']) = 100 \<and>
   loading_progress_width
     (main_run (main_init ''Upperlimb_diffuse'')
        [Progress 10 10,
         LoadSuccess ''Upperlimb_diffuse''
           \<lparr>bbox_size = Vector3 2 2 1, bbox_center = Vector3 0 0 0, bbox_sphere_radius = 1.5,
            scale = Vector3 1 1 1\<rparr>,
         Select ''lowerlimb_diffuse'']) \<noteq> 0"
  by (simp add: main_run_def main_init_def main_loadModel_def main_onProgress_def
      main_onLoad_def model_select_change_def showSpinner_def hideSpinner_def Let_def
      model_settings_def)

section \<open>Pointer selection: proofs\<close>

lemma replace_underscores_props:
  "length (replace_underscores n) = length n \<and>
   CHR ''_'' \<notin> set (replace_underscores n) \<and>
   (\<forall>i < length n.
      replace_underscores n ! i = (if n ! i = CHR ''_'' then CHR '' '' else n ! i))"
  by (auto simp: replace_underscores_def)

text \<open>
  Claim C8. With the hits sorted by distance as three.js returns them: when there is no
  hit, the info display is hidden; when there is one, the first hit is a nearest one, and
  if its name is not \<^verbatim>\<open>Mesh\<close> the info display is shown with that name in which every
  underscore is a space and every other character is as it was, and if its name is
  \<^verbatim>\<open>Mesh\<close> the info display is hidden.
\<close>

theorem pointer_down_shows_nearest_name:
  assumes "sorted (map hit_distance intersects)"
  shows "(case intersects of
            [] \<Rightarrow> info_display (onPointerDown intersects s) = ''none''
          | h # rest \<Rightarrow>
              (\<forall>k \<in> set intersects. hit_distance h \<le> hit_distance k) \<and>
              (if hit_object_name h \<noteq> ''Mesh''
               then info_display (onPointerDown intersects s) = ''block'' \<and>
                    info_innerText (onPointerDown intersects s) =
                      replace_underscores (hit_object_name h) \<and>
                    length (info_innerText (onPointerDown intersects s)) =
                      length (hit_object_name h) \<and>
                    CHR ''_'' \<notin> set (info_innerText (onPointerDown intersects s)) \<and>
                    (\<forall>i < length (hit_object_name h).
                       info_innerText (onPointerDown intersects s) ! i =
                         (if hit_object_name h ! i = CHR ''_'' then CHR '' ''
                          else hit_object_name h ! i))
               else info_display (onPointerDown intersects s) = ''none''))"
proof (cases intersects)
  case Nil
  then show ?thesis by (simp add: onPointerDown_def)
next
  case (Cons h rest)
  have near: "\<forall>k \<in> set intersects. hit_distance h \<le> hit_distance k"
    using assms Cons by auto
  show ?thesis
    using near Cons replace_underscores_props[of "hit_object_name h"]
    by (simp add: onPointerDown_def Let_def)
qed

theorem pointer_down_shows_nearest_name_witness:
  "sorted (map hit_distance
     [\<lparr>hit_distance = 1, hit_object_name = ''m_biceps_brachii''\<rparr>,
      \<lparr>hit_distance = 2, hit_object_name = ''Mesh''\<rparr>]) \<and>
   info_display (onPointerDown
     [\<lparr>hit_distance = 1, hit_object_name = ''m_biceps_brachii''\<rparr>,
      \<lparr>hit_distance = 2, hit_object_name = ''Mesh''\<rparr>] (main_init ''Upperlimb_diffuse''))
     = ''block'' \<and>
   info_innerText (onPointerDown
     [\<lparr>hit_distance = 1, hit_object_name = ''m_biceps_brachii''\<rparr>,
      \<lparr>hit_distance = 2, hit_object_name = ''Mesh''\<rparr>] (main_init ''Upperlimb_diffuse''))
     = ''m biceps brachii''"
proof -
  let ?hits = "[\<lparr>hit_distance = 1, hit_object_name = ''m_biceps_brachii''\<rparr>,
      \<lparr>hit_distance = 2, hit_object_name = ''Mesh''\<rparr>]"
  have h: "sorted (map hit_distance ?hits)" by simp
  note t = pointer_down_shows_nearest_name[OF h, where s = "main_init ''Upperlimb_diffuse''"]
  have ne: "hit_object_name \<lparr>hit_distance = 1, hit_object_name = ''m_biceps_brachii''\<rparr>
              \<noteq> ''Mesh''"
    by simp
  from t ne have d: "info_display (onPointerDown ?hits (main_init ''Upperlimb_diffuse''))
      = ''block''"
    and x: "info_innerText (onPointerDown ?hits (main_init ''Upperlimb_diffuse'')) =
      replace_underscores (hit_object_name
        \<lparr>hit_distance = 1, hit_object_name = ''m_biceps_brachii''\<rparr>)"
    by simp_all
  have r: "replace_underscores (hit_object_name
        \<lparr>hit_distance = 1, hit_object_name = ''m_biceps_brachii''\<rparr>) = ''m biceps brachii''"
    by (simp add: replace_underscores_def)
  from h d x[unfolded r] show ?thesis by blast
qed

section \<open>The quiz: proofs\<close>

lemma showQuestion_fields:
  "currentQuestion (state_after (showQuestion qd s)) = currentQuestion s \<and>
   score (state_after (showQuestion qd s)) = score s"
  by (simp add: showQuestion_def Let_def)

lemma selectAnswer_returns:
  assumes "currentQuestion s < length qd"
  shows "\<exists>s'. selectAnswer qd t s = Inr s' \<and>
           score s' = score s + (if t = answer (qd ! currentQuestion s) then 1 else 0) \<and>
           currentQuestion s' = currentQuestion s + 1"
  using assms by (simp add: selectAnswer_def showQuestion_def showResult_def Let_def)

lemma selectAnswer_throws:
  assumes "\<not> currentQuestion s < length qd"
  shows "selectAnswer qd t s = Inl (TypeError, s)"
  using assms by (simp add: selectAnswer_def)

lemma retakeQuiz_fields:
  "currentQuestion (state_after (retakeQuiz qd s)) = 0 \<and>
   score (state_after (retakeQuiz qd s)) = 0"
  by (simp add: retakeQuiz_def showQuestion_fields)

lemma retakeQuiz_returns:
  assumes "qd \<noteq> []"
  shows "\<exists>s'. retakeQuiz qd s = Inr s' \<and> currentQuestion s' = 0 \<and> score s' = 0"
  using assms by (simp add: retakeQuiz_def showQuestion_def Let_def)

lemma quiz_step_inv:
  assumes "quiz_inv qd s"
  shows "quiz_inv qd (state_after (quiz_step qd s e))"
proof (cases e)
  case (ClickOption t)
  show ?thesis
  proof (cases "currentQuestion s < length qd")
    case True
    from selectAnswer_returns[OF True, of t] obtain s' where
      "selectAnswer qd t s = Inr s'"
      "score s' = score s + (if t = answer (qd ! currentQuestion s) then 1 else 0)"
      "currentQuestion s' = currentQuestion s + 1"
      by blast
    with assms True ClickOption show ?thesis by (simp add: quiz_inv_def)
  next
    case False
    with assms ClickOption show ?thesis by (simp add: selectAnswer_throws)
  qed
next
  case ClickRetake
  then show ?thesis using retakeQuiz_fields[of qd s] by (simp add: quiz_inv_def)
qed

lemma quiz_run_inv:
  assumes "quiz_inv qd s"
  shows "quiz_inv qd (quiz_run qd s es)"
  using assms unfolding quiz_run_def
  by (induction es arbitrary: s) (simp_all add: quiz_step_inv)

lemma quiz_init_fields: "currentQuestion (quiz_init qd) = 0 \<and> score (quiz_init qd) = 0"
  by (simp add: quiz_init_def showQuestion_fields)

lemma quiz_init_inv: "quiz_inv qd (quiz_init qd)"
  by (simp add: quiz_inv_def quiz_init_fields)

lemma quiz_run_selections:
  assumes "currentQuestion s + length ts \<le> length qd"
  shows "currentQuestion (quiz_run qd s (map ClickOption ts)) = currentQuestion s + length ts \<and>
         score (quiz_run qd s (map ClickOption ts)) =
           score s + correct_answers (drop (currentQuestion s) qd) ts"
  using assms
proof (induction ts arbitrary: s)
  case Nil
  then show ?case by (simp add: quiz_run_def correct_answers_def)
next
  case (Cons t ts)
  then have lt: "currentQuestion s < length qd" by simp
  from selectAnswer_returns[OF lt, of t] obtain s' where
    s': "selectAnswer qd t s = Inr s'"
    "score s' = score s + (if t = answer (qd ! currentQuestion s) then 1 else 0)"
    "currentQuestion s' = currentQuestion s + 1"
    by blast
  have run: "quiz_run qd s (map ClickOption (t # ts)) = quiz_run qd s' (map ClickOption ts)"
    by (simp add: quiz_run_def s'(1))
  have "currentQuestion s' + length ts \<le> length qd"
    using Cons.prems s'(3) by simp
  from Cons.IH[OF this]
  have ih: "currentQuestion (quiz_run qd s' (map ClickOption ts)) = currentQuestion s' + length ts"
    "score (quiz_run qd s' (map ClickOption ts)) =
       score s' + correct_answers (drop (currentQuestion s') qd) ts"
    by simp_all
  have dr: "drop (currentQuestion s) qd = qd ! currentQuestion s # drop (currentQuestion s') qd"
    using lt s'(3) by (simp add: Cons_nth_drop_Suc)
  have "correct_answers (drop (currentQuestion s) qd) (t # ts) =
      (if t = answer (qd ! currentQuestion s) then 1 else 0) +
      correct_answers (drop (currentQuestion s') qd) ts"
    by (simp add: dr correct_answers_def)
  with run ih s'(2,3) show ?case by simp
qed

lemma last_selection_shows_result:
  assumes "currentQuestion s + 1 = length qd"
  shows "state_after (selectAnswer qd t s) = showResult qd (state_after (selectAnswer qd t s))"
  using assms by (simp add: selectAnswer_def showResult_def Let_def)

lemma quiz_run_snoc:
  "quiz_run qd s (es @ [e]) = state_after (quiz_step qd (quiz_run qd s es) e)"
  by (simp add: quiz_run_def)

lemma showResult_markup:
  "\<exists>rest. optionsElement (showResult qd s) =
     InnerHTML (''<h1>Completed!</h1><p>Your score: '' @ string_of_nat (score s) @ ''/'' @
                string_of_nat (length qd) @ ''</p>'' @ rest)"
  by (simp add: showResult_def Let_def del: string_of_nat.simps)

lemma full_run_is_result_page:
  assumes "qd \<noteq> []" and "length ts = length qd"
  shows "quiz_run qd (quiz_init qd) (map ClickOption ts) =
         showResult qd (quiz_run qd (quiz_init qd) (map ClickOption ts))"
proof -
  from assms have "ts \<noteq> []" by auto
  then obtain us u where ts: "ts = us @ [u]"
    by (metis rev_exhaust)
  let ?m = "quiz_run qd (quiz_init qd) (map ClickOption us)"
  have "currentQuestion (quiz_init qd) + length us \<le> length qd"
    using assms ts by (simp add: quiz_init_fields)
  from quiz_run_selections[OF this] have "currentQuestion ?m + 1 = length qd"
    using assms ts by (simp add: quiz_init_fields)
  from last_selection_shows_result[OF this, of u] show ?thesis
    by (simp add: ts quiz_run_snoc)
qed

text \<open>
  Claim C10. For a non-empty table: (1) a selection made while a question is shown
  returns, moves to the next question, and adds one to the score when the clicked text is
  the stored answer of the current question and nothing otherwise; (2) after every
  sequence of clicks on options and on the retake button, from the loaded page,
  \<open>0 \<le> score \<le> currentQuestion \<le> length quizData\<close>; (3) once every question has had
  its selection, the score is the number of selections that were the stored answer, and
  the result markup shows that number over the number of questions; (4) \<^verbatim>\<open>retakeQuiz\<close>
  returns with the question index and the score both 0.
\<close>

theorem quiz_score_counts_correct_answers:
  assumes "qd \<noteq> []" and "length ts = length qd"
  shows
   "(currentQuestion s < length qd \<longrightarrow>
       (\<exists>s'. selectAnswer qd t s = Inr s' \<and>
          score s' = score s + (if t = answer (qd ! currentQuestion s) then 1 else 0) \<and>
          currentQuestion s' = currentQuestion s + 1)) \<and>
    (0 \<le> score (quiz_run qd (quiz_init qd) es) \<and>
     score (quiz_run qd (quiz_init qd) es) \<le> currentQuestion (quiz_run qd (quiz_init qd) es) \<and>
     currentQuestion (quiz_run qd (quiz_init qd) es) \<le> length qd) \<and>
    (score (quiz_run qd (quiz_init qd) (map ClickOption ts)) = correct_answers qd ts \<and>
     currentQuestion (quiz_run qd (quiz_init qd) (map ClickOption ts)) = length qd \<and>
     (\<exists>rest. optionsElement (quiz_run qd (quiz_init qd) (map ClickOption ts)) =
        InnerHTML (''<h1>Completed!</h1><p>Your score: '' @
                   string_of_nat (correct_answers qd ts) @ ''/'' @
                   string_of_nat (length qd) @ ''</p>'' @ rest))) \<and>
    (\<exists>s'. retakeQuiz qd s = Inr s' \<and> currentQuestion s' = 0 \<and> score s' = 0)"
proof -
  let ?end = "quiz_run qd (quiz_init qd) (map ClickOption ts)"
  have a: "currentQuestion s < length qd \<longrightarrow>
       (\<exists>s'. selectAnswer qd t s = Inr s' \<and>
          score s' = score s + (if t = answer (qd ! currentQuestion s) then 1 else 0) \<and>
          currentQuestion s' = currentQuestion s + 1)"
    using selectAnswer_returns by blast
  have b: "0 \<le> score (quiz_run qd (quiz_init qd) es) \<and>
     score (quiz_run qd (quiz_init qd) es) \<le> currentQuestion (quiz_run qd (quiz_init qd) es) \<and>
     currentQuestion (quiz_run qd (quiz_init qd) es) \<le> length qd"
    using quiz_run_inv[OF quiz_init_inv, of qd es] by (simp add: quiz_inv_def)
  have "currentQuestion (quiz_init qd) + length ts \<le> length qd"
    using assms(2) by (simp add: quiz_init_fields)
  from quiz_run_selections[OF this]
  have c1: "score ?end = correct_answers qd ts" and c2: "currentQuestion ?end = length qd"
    using assms(2) by (simp_all add: quiz_init_fields)
  from showResult_markup[of qd ?end] obtain rest where
    "optionsElement (showResult qd ?end) =
       InnerHTML (''<h1>Completed!</h1><p>Your score: '' @ string_of_nat (score ?end) @ ''/'' @
                  string_of_nat (length qd) @ ''</p>'' @ rest)"
    by blast
  then have c3: "\<exists>rest. optionsElement ?end =
        InnerHTML (''<h1>Completed!</h1><p>Your score: '' @
                   string_of_nat (correct_answers qd ts) @ ''/'' @
                   string_of_nat (length qd) @ ''</p>'' @ rest)"
    using full_run_is_result_page[OF assms] c1 by metis
  have d: "\<exists>s'. retakeQuiz qd s = Inr s' \<and> currentQuestion s' = 0 \<and> score s' = 0"
    using retakeQuiz_returns[OF assms(1)] by blast
  from a b c1 c2 c3 d show ?thesis by blast
qed

theorem quiz_score_counts_correct_answers_witness:
  "quizData \<noteq> [] \<and>
   length [''m iliacus'', ''m rectus femoris'', ''n femoralis'', ''this vein goes to the external iliac crest'',
           ''this muscle is part of the pes anserinus'', ''m adductor longus'', ''v saphena magna'',
           ''m plantaris'', ''L5-S2'', ''greater trochanter femoris''] = length quizData \<and>
   score (quiz_run quizData (quiz_init quizData) (map ClickOption
          [''m iliacus'', ''m rectus femoris'', ''n femoralis'', ''this vein goes to the external iliac crest'',
           ''this muscle is part of the pes anserinus'', ''m adductor longus'', ''v saphena magna'',
           ''m plantaris'', ''L5-S2'', ''greater trochanter femoris''])) = 6 \<and>
   currentQuestion (quiz_run quizData (quiz_init quizData) (map ClickOption
          [''m iliacus'', ''m rectus femoris'', ''n femoralis'', ''this vein goes to the external iliac crest'',
           ''this muscle is part of the pes anserinus'', ''m adductor longus'', ''v saphena magna'',
           ''m plantaris'', ''L5-S2'', ''greater trochanter femoris''])) = 10"
proof -
  let ?ts = "[''m iliacus'', ''m rectus femoris'', ''n femoralis'', ''this vein goes to the external iliac crest'',
           ''this muscle is part of the pes anserinus'', ''m adductor longus'', ''v saphena magna'',
           ''m plantaris'', ''L5-S2'', ''greater trochanter femoris'']"
  have h1: "quizData \<noteq> []" by (simp add: quizData_def)
  have n: "length quizData = 10" by (simp add: quizData_def)
  have h2: "length ?ts = length quizData" by (simp add: n)
  have k: "correct_answers quizData ?ts = 6"
    by (simp add: correct_answers_def quizData_def)
  note t = quiz_score_counts_correct_answers[OF h1 h2, where s = "quiz_init quizData"
      and t = "''m iliacus''" and es = "[]"]
  from t have c1: "score (quiz_run quizData (quiz_init quizData) (map ClickOption ?ts)) =
      correct_answers quizData ?ts"
    and c2: "currentQuestion (quiz_run quizData (quiz_init quizData) (map ClickOption ?ts)) =
      length quizData"
    by blast+
  from h1 h2 c1[unfolded k] c2[unfolded n] show ?thesis by (intro conjI)
qed

end
